theory Spec2Isabelle
  imports Complex_Main "HOL-Library.Log_Nat"
begin

section \<open>The cameras of ppb/camera.py\<close>

text \<open>
  A shallow embedding of the two classes of \<^verbatim>\<open>ppb/camera.py\<close>: \<^verbatim>\<open>Camera\<close>, whose
  pixel ratio is solved from a target width or height, and the legacy \<^verbatim>\<open>OldCamera\<close>,
  whose pixel ratio is supplied by the caller.

  Numbers: Python's \<^verbatim>\<open>int\<close> is \<^typ>\<open>int\<close>; a \<^verbatim>\<open>float\<close> is the \<^typ>\<open>real\<close> number that is
  its value. In \<^verbatim>\<open>Camera._set_dimensions\<close> the divisions round to the nearest binary64
  number, ties to even, as Python's do, and an infinite quotient is a value of its own:
  the integer \<^verbatim>\<open>pixel_ratio\<close> is the truncation of the rounded quotient, not of the
  exact one. Everywhere else (the edges of the frame, the legacy camera) arithmetic is
  exact. NaN is not part of this model.

  Effects: a method that assigns to \<^verbatim>\<open>self\<close> takes the object and returns it updated.
  An exception is a value of \<open>error\<close>; a method that can raise after it has assigned
  returns the raised error (if any) together with the object as the raise left it.
\<close>

subsection \<open>Errors and arithmetic\<close>

datatype error =
    ValueError string
  | ZeroDivisionError
  | OverflowError
  | TypeError
  | IndexError

text \<open>Sequencing of computations that may raise: the first exception ends the evaluation.\<close>

definition and_then :: "error + 'a \<Rightarrow> ('a \<Rightarrow> error + 'b) \<Rightarrow> error + 'b" where
  "and_then m f = (case m of Inl e \<Rightarrow> Inl e | Inr v \<Rightarrow> f v)"

text \<open>Python's true division \<^verbatim>\<open>a / b\<close> in exact arithmetic: it raises on a zero divisor.\<close>

definition truediv :: "real \<Rightarrow> real \<Rightarrow> error + real" where
  "truediv a b = (if b = 0 then Inl ZeroDivisionError else Inr (a / b))"

text \<open>Python's \<^verbatim>\<open>int(r)\<close> on a real number: truncation towards zero.\<close>

definition py_int :: "real \<Rightarrow> int" where
  "py_int r = (if 0 \<le> r then \<lfloor>r\<rfloor> else \<lceil>r\<rceil>)"

text \<open>Python's \<^verbatim>\<open>xs[i]\<close> for an index \<open>i \<ge> 0\<close>: it raises past the end.\<close>

definition getitem :: "'a list \<Rightarrow> nat \<Rightarrow> error + 'a" where
  "getitem xs i = (if i < length xs then Inr (xs ! i) else Inl IndexError)"

subsection \<open>Floats\<close>

text \<open>
  A Python \<^verbatim>\<open>float\<close> is an IEEE 754 binary64 number: 53 significant bits, exponents
  from -1022 to 1023, subnormal numbers below \<open>2 powi (- 1022)\<close>. An arithmetic
  operation returns the exact result rounded to the nearest such number, ties to the one
  with an even significand.

  \<open>round_even\<close> rounds a real number to the nearest integer, ties to even.
\<close>

definition round_even :: "real \<Rightarrow> int" where
  "round_even x =
     (let f = \<lfloor>x\<rfloor>; d = x - real_of_int f
      in if d < 1 / 2 then f else if 1 / 2 < d then f + 1 else if even f then f else f + 1)"

text \<open>
  The exponent \<open>e\<close> of a number \<open>x \<noteq> 0\<close>, with \<open>2 powi e \<le> \<bar>x\<bar> < 2 powi (e + 1)\<close>, from the
  bit length of the integer part of \<open>\<bar>x\<bar>\<close> or of its inverse.
\<close>

definition binade :: "real \<Rightarrow> int" where
  "binade x =
     (if 1 \<le> \<bar>x\<bar> then bitlen \<lfloor>\<bar>x\<bar>\<rfloor> - 1 else - bitlen (\<lceil>1 / \<bar>x\<bar>\<rceil> - 1))"

text \<open>
  The distance of neighbouring binary64 numbers around \<open>x\<close>: 52 bits below the exponent
  of \<open>x\<close>, and \<open>2 powi (- 1074)\<close> for a subnormal \<open>x\<close>.
\<close>

definition ulp :: "real \<Rightarrow> real" where
  "ulp x = 2 powi (max (binade x) (- 1022) - 52)"

text \<open>
  The binary64 number nearest to \<open>x\<close>, ties to even. When its magnitude reaches
  \<open>2 ^ 1024\<close> the float is infinite.
\<close>

definition rnd :: "real \<Rightarrow> real" where
  "rnd x = real_of_int (round_even (x / ulp x)) * ulp x"

datatype pyfloat = Finite real | Infinity

text \<open>
  The conversion of an \<^verbatim>\<open>int\<close> operand to a \<^verbatim>\<open>float\<close>: it rounds, and raises when the
  integer is too large.
\<close>

definition float_of_int :: "int \<Rightarrow> error + real" where
  "float_of_int p =
     (if 2 ^ 1024 \<le> \<bar>rnd (real_of_int p)\<bar> then Inl OverflowError
      else Inr (rnd (real_of_int p)))"

text \<open>
  Python's \<^verbatim>\<open>x / t\<close> on two floats: it raises on a zero divisor; a quotient too large for
  a float is infinite, without an exception.
\<close>

definition float_truediv :: "real \<Rightarrow> real \<Rightarrow> error + pyfloat" where
  "float_truediv x t =
     (if t = 0 then Inl ZeroDivisionError
      else if 2 ^ 1024 \<le> \<bar>rnd (x / t)\<bar> then Inr Infinity
      else Inr (Finite (rnd (x / t))))"

text \<open>Python's \<^verbatim>\<open>int(q)\<close> on a float: it raises on an infinite one.\<close>

definition int_of_float :: "pyfloat \<Rightarrow> error + int" where
  "int_of_float q = (case q of Infinity \<Rightarrow> Inl OverflowError | Finite r \<Rightarrow> Inr (py_int r))"

text \<open>
  Python's \<^verbatim>\<open>a / b\<close> on two \<^verbatim>\<open>int\<close>s: the exact quotient, rounded once; it raises on a
  zero divisor and on a quotient too large for a float.
\<close>

definition int_truediv :: "int \<Rightarrow> int \<Rightarrow> error + real" where
  "int_truediv a b =
     (if b = 0 then Inl ZeroDivisionError
      else if 2 ^ 1024 \<le> \<bar>rnd (real_of_int a / real_of_int b)\<bar> then Inl OverflowError
      else Inr (rnd (real_of_int a / real_of_int b)))"

subsection \<open>Vector\<close>

text \<open>
  Modelled from the spec: the class \<^verbatim>\<open>Vector\<close> of the package \<^verbatim>\<open>ppb_vector\<close>, which
  \<^verbatim>\<open>camera.py\<close> imports. The spec describes it as an immutable 2-component numeric
  value with component access \<^verbatim>\<open>x\<close>, \<^verbatim>\<open>y\<close> and scalar \<^verbatim>\<open>*\<close> and \<^verbatim>\<open>/\<close>. The components
  are named \<open>vec_x\<close> and \<open>vec_y\<close> here.
\<close>

datatype vector = Vector (vec_x: real) (vec_y: real)

definition vector_mul :: "vector \<Rightarrow> real \<Rightarrow> vector" where
  "vector_mul v k = Vector (vec_x v * k) (vec_y v * k)"

definition vector_truediv :: "vector \<Rightarrow> real \<Rightarrow> error + vector" where
  "vector_truediv v k =
     and_then (truediv (vec_x v) k) (\<lambda>a.
     and_then (truediv (vec_y v) k) (\<lambda>b.
     Inr (Vector a b)))"

subsection \<open>Camera\<close>

text \<open>
  The attributes of a \<^verbatim>\<open>Camera\<close>. \<^verbatim>\<open>__init__\<close> assigns \<^verbatim>\<open>None\<close> to \<^verbatim>\<open>pixel_ratio\<close>,
  \<^verbatim>\<open>_width\<close> and \<^verbatim>\<open>_height\<close> before it solves them, so the three are options.
  \<^verbatim>\<open>_width\<close> and \<^verbatim>\<open>_height\<close> are \<open>priv_width\<close> and \<open>priv_height\<close>; \<^verbatim>\<open>position\<close> is the
  class attribute \<^verbatim>\<open>Vector(0, 0)\<close> until the scene assigns another.
\<close>

record 'r camera =
  renderer :: 'r
  target_game_unit_width :: real
  viewport_dimensions :: "int \<times> int"
  pixel_ratio :: "int option"
  priv_width :: "real option"
  priv_height :: "real option"
  position :: vector

text \<open>
  \<^verbatim>\<open>Camera._set_dimensions\<close> (lines 145-160). The result is the exception raised, if
  any, and the camera as the call left it. The two \<^verbatim>\<open>ValueError\<close>s are raised before the
  first assignment, and so is every exception of line 158: the target is a \<^verbatim>\<open>float\<close>,
  so the pixel count is converted to a \<^verbatim>\<open>float\<close>, divided and the quotient truncated by
  \<^verbatim>\<open>int\<close>. The divisions of lines 159 and 160 divide two \<^verbatim>\<open>int\<close>s; a zero
  \<^verbatim>\<open>pixel_ratio\<close> is raised there, after \<^verbatim>\<open>pixel_ratio\<close> has been assigned.
\<close>

definition set_dimensions ::
  "'r camera \<Rightarrow> real option \<Rightarrow> real option \<Rightarrow> error option \<times> 'r camera" where
  "set_dimensions self target_width target_height =
     (let (viewport_width, viewport_height) = viewport_dimensions self in
      case (case (target_width, target_height) of
              (Some tw, Some th) \<Rightarrow> Inl (ValueError ''Can only set one dimension at a time.'')
            | (Some tw, None) \<Rightarrow> Inr (tw, viewport_width)
            | (None, Some th) \<Rightarrow> Inr (th, viewport_height)
            | (None, None) \<Rightarrow> Inl (ValueError ''Must set target_width or target_height''))
      of
        Inl e \<Rightarrow> (Some e, self)
      | Inr (game_unit_target, pixel_value) \<Rightarrow>
          (case and_then (and_then (float_of_int pixel_value)
                           (\<lambda>x. float_truediv x game_unit_target)) int_of_float of
             Inl e \<Rightarrow> (Some e, self)
           | Inr ratio \<Rightarrow>
               (let self1 = self\<lparr>pixel_ratio := Some ratio\<rparr> in
                case int_truediv viewport_width ratio of
                  Inl e \<Rightarrow> (Some e, self1)
                | Inr w \<Rightarrow>
                    (let self2 = self1\<lparr>priv_width := Some w\<rparr> in
                     case int_truediv viewport_height ratio of
                       Inl e \<Rightarrow> (Some e, self2)
                     | Inr h \<Rightarrow> (None, self2\<lparr>priv_height := Some h\<rparr>)))))"

text \<open>
  \<^verbatim>\<open>Camera.__init__\<close> (lines 23-46). When \<^verbatim>\<open>_set_dimensions\<close> raises, the exception
  leaves the constructor and no camera exists.
\<close>

definition Camera_init :: "'r \<Rightarrow> real \<Rightarrow> int \<times> int \<Rightarrow> error + 'r camera" where
  "Camera_init rend target viewport =
     (let self = \<lparr>renderer = rend, target_game_unit_width = target,
                  viewport_dimensions = viewport, pixel_ratio = None,
                  priv_width = None, priv_height = None, position = Vector 0 0\<rparr>
      in case set_dimensions self (Some target) None of
           (Some e, _) \<Rightarrow> Inl e
         | (None, self') \<Rightarrow> Inr self')"

text \<open>The properties \<^verbatim>\<open>width\<close> and \<^verbatim>\<open>height\<close> and their setters (lines 48-86).\<close>

definition width :: "'r camera \<Rightarrow> real option" where
  "width self = priv_width self"

definition set_width :: "'r camera \<Rightarrow> real \<Rightarrow> error option \<times> 'r camera" where
  "set_width self target_width = set_dimensions self (Some target_width) None"

definition height :: "'r camera \<Rightarrow> real option" where
  "height self = priv_height self"

definition set_height :: "'r camera \<Rightarrow> real \<Rightarrow> error option \<times> 'r camera" where
  "set_height self target_height = set_dimensions self None (Some target_height)"


definition left :: "'r camera \<Rightarrow> error + real" where
  "left self =
     (case width self of None \<Rightarrow> Inl TypeError
      | Some w \<Rightarrow> Inr (vec_x (position self) - w / 2))"


definition top' :: "'r camera \<Rightarrow> error + real" where
  "top' self =
     (case height self of None \<Rightarrow> Inl TypeError
      | Some h \<Rightarrow> Inr (vec_y (position self) + h / 2))"


text \<open>
  \<^verbatim>\<open>Camera.translate_point_to_screen\<close> (lines 102-111). A \<^verbatim>\<open>Vector\<close> times \<^verbatim>\<open>None\<close>
  is a \<^verbatim>\<open>TypeError\<close>.
\<close>

definition translate_point_to_screen :: "'r camera \<Rightarrow> vector \<Rightarrow> error + vector" where
  "translate_point_to_screen self point =
     and_then (left self) (\<lambda>l.
     and_then (top' self) (\<lambda>t.
       case pixel_ratio self of
         None \<Rightarrow> Inl TypeError
       | Some k \<Rightarrow> Inr (vector_mul (Vector (vec_x point - l) (t - vec_y point)) (real_of_int k))))"

subsection \<open>OldCamera\<close>

text \<open>
  The attributes that \<^verbatim>\<open>OldCamera.__init__\<close> assigns. \<^verbatim>\<open>_viewport_width\<close> and
  \<^verbatim>\<open>_viewport_height\<close> are \<open>priv_viewport_width\<close> and \<open>priv_viewport_height\<close>;
  \<^verbatim>\<open>position\<close> and \<^verbatim>\<open>pixel_ratio\<close> are \<open>old_position\<close> and \<open>old_pixel_ratio\<close>, since
  the record of \<^verbatim>\<open>Camera\<close> has fields of the same names.
\<close>

record old_camera =
  old_position :: vector
  viewport_origin :: vector
  priv_viewport_width :: int
  priv_viewport_height :: int
  viewport_offset :: vector
  old_pixel_ratio :: real

text \<open>The properties \<^verbatim>\<open>viewport_width\<close> and \<^verbatim>\<open>viewport_height\<close> with their setters
  (lines 222-238).\<close>

definition viewport_width :: "old_camera \<Rightarrow> int" where
  "viewport_width self = priv_viewport_width self"

definition viewport_height :: "old_camera \<Rightarrow> int" where
  "viewport_height self = priv_viewport_height self"

definition set_viewport_width :: "old_camera \<Rightarrow> int \<Rightarrow> old_camera" where
  "set_viewport_width self v =
     (let self1 = self\<lparr>priv_viewport_width := v\<rparr> in
      self1\<lparr>viewport_offset :=
               Vector (real_of_int v / 2) (real_of_int (viewport_height self1) / 2)\<rparr>)"

definition set_viewport_height :: "old_camera \<Rightarrow> int \<Rightarrow> old_camera" where
  "set_viewport_height self v =
     (let self1 = self\<lparr>priv_viewport_height := v\<rparr> in
      self1\<lparr>viewport_offset :=
               Vector (real_of_int (viewport_width self1) / 2) (real_of_int v / 2)\<rparr>)"

text \<open>
  \<^verbatim>\<open>OldCamera.__init__\<close> (lines 167-188). The viewport is a sequence; reading one of
  its first four items raises \<^verbatim>\<open>IndexError\<close> when the sequence is shorter.
\<close>

definition OldCamera_init :: "int list \<Rightarrow> real \<Rightarrow> error + old_camera" where
  "OldCamera_init viewport ratio =
     and_then (getitem viewport 0) (\<lambda>v0.
     and_then (getitem viewport 1) (\<lambda>v1.
     and_then (getitem viewport 2) (\<lambda>v2.
     and_then (getitem viewport 3) (\<lambda>v3.
       Inr \<lparr>old_position = Vector 0 0,
            viewport_origin = Vector (real_of_int v0) (real_of_int v1),
            priv_viewport_width = v2,
            priv_viewport_height = v3,
            viewport_offset = Vector (real_of_int v2 / 2) (real_of_int v3 / 2),
            old_pixel_ratio = ratio\<rparr>))))"

text \<open>The frame in game units (lines 190-220).\<close>

definition frame_height :: "old_camera \<Rightarrow> error + real" where
  "frame_height self = truediv (real_of_int (viewport_height self)) (old_pixel_ratio self)"

definition frame_width :: "old_camera \<Rightarrow> error + real" where
  "frame_width self = truediv (real_of_int (viewport_width self)) (old_pixel_ratio self)"

definition half_height :: "old_camera \<Rightarrow> error + real" where
  "half_height self = and_then (frame_height self) (\<lambda>h. Inr (h / 2))"

definition half_width :: "old_camera \<Rightarrow> error + real" where
  "half_width self = and_then (frame_width self) (\<lambda>w. Inr (w / 2))"

definition frame_top :: "old_camera \<Rightarrow> error + real" where
  "frame_top self = and_then (half_height self) (\<lambda>h. Inr (vec_y (old_position self) + h))"

definition frame_bottom :: "old_camera \<Rightarrow> error + real" where
  "frame_bottom self = and_then (half_height self) (\<lambda>h. Inr (vec_y (old_position self) - h))"

definition frame_left :: "old_camera \<Rightarrow> error + real" where
  "frame_left self = and_then (half_width self) (\<lambda>w. Inr (vec_x (old_position self) - w))"

definition frame_right :: "old_camera \<Rightarrow> error + real" where
  "frame_right self = and_then (half_width self) (\<lambda>w. Inr (vec_x (old_position self) + w))"

text \<open>\<^verbatim>\<open>OldCamera.point_in_viewport\<close> (lines 240-245).\<close>

definition point_in_viewport :: "old_camera \<Rightarrow> vector \<Rightarrow> bool" where
  "point_in_viewport self point =
     (let px = vec_x point; py = vec_y point;
          vpx = vec_x (viewport_origin self); vpy = vec_y (viewport_origin self);
          vpw = real_of_int (viewport_width self);
          vph = real_of_int (viewport_height self)
      in vpx \<le> px \<and> px \<le> vpw + vpx \<and> vpy \<le> py \<and> py \<le> vph + vpy)"

text \<open>
  Modelled from the spec: the argument of \<^verbatim>\<open>in_frame\<close> is a \<^verbatim>\<open>Sprite\<close> of
  \<^verbatim>\<open>ppb.sprites\<close>, of which the spec says only that it exposes the axis-aligned bounds
  \<^verbatim>\<open>left\<close>, \<^verbatim>\<open>right\<close>, \<^verbatim>\<open>top\<close> and \<^verbatim>\<open>bottom\<close> in game units.
\<close>

datatype sprite =
  Sprite (sprite_left: real) (sprite_right: real) (sprite_top: real) (sprite_bottom: real)

text \<open>\<^verbatim>\<open>OldCamera.in_frame\<close> (lines 247-252); \<^verbatim>\<open>and\<close> stops at the first false operand.\<close>

definition in_frame :: "old_camera \<Rightarrow> sprite \<Rightarrow> error + bool" where
  "in_frame self s =
     and_then (frame_left self) (\<lambda>fl.
       if \<not> fl \<le> sprite_right s then Inr False
       else and_then (frame_right self) (\<lambda>fr.
         if \<not> fr \<ge> sprite_left s then Inr False
         else and_then (frame_top self) (\<lambda>ft.
           if \<not> ft \<ge> sprite_bottom s then Inr False
           else and_then (frame_bottom self) (\<lambda>fb.
             Inr (fb \<le> sprite_top s)))))"

text \<open>\<^verbatim>\<open>OldCamera.translate_to_frame\<close> (lines 254-261).\<close>

definition translate_to_frame :: "old_camera \<Rightarrow> vector \<Rightarrow> error + vector" where
  "translate_to_frame self point =
     and_then (vector_truediv point (old_pixel_ratio self)) (\<lambda>scaled.
     and_then (frame_left self) (\<lambda>fl.
     and_then (frame_top self) (\<lambda>ft.
       Inr (Vector (fl + vec_x scaled) (ft - vec_y scaled)))))"

text \<open>\<^verbatim>\<open>OldCamera.translate_to_viewport\<close> (lines 263-269).\<close>

definition translate_to_viewport :: "old_camera \<Rightarrow> vector \<Rightarrow> error + vector" where
  "translate_to_viewport self point =
     and_then (frame_left self) (\<lambda>fl.
     and_then (frame_top self) (\<lambda>ft.
       Inr (vector_mul (Vector (vec_x point - fl) (ft - vec_y point)) (old_pixel_ratio self))))"

subsection \<open>The offset cache and sequences of setter calls\<close>

text \<open>
  The cached \<^verbatim>\<open>viewport_offset\<close> agrees with the viewport: it is half the width and half
  the height, as \<^verbatim>\<open>__init__\<close> and the two setters compute it.
\<close>

definition offset_synced :: "old_camera \<Rightarrow> bool" where
  "offset_synced self =
     (viewport_offset self =
        Vector (real_of_int (viewport_width self) / 2) (real_of_int (viewport_height self) / 2))"

text \<open>A call of one of the two setters, and a run of such calls on a camera.\<close>

datatype setter_call = SetViewportWidth int | SetViewportHeight int

fun apply_setter :: "old_camera \<Rightarrow> setter_call \<Rightarrow> old_camera" where
  "apply_setter self (SetViewportWidth v) = set_viewport_width self v"
| "apply_setter self (SetViewportHeight v) = set_viewport_height self v"

section \<open>Basic facts\<close>

lemma and_then_Inr [simp]: "and_then (Inr v) f = f v"
  by (simp add: and_then_def)

lemma and_then_Inl [simp]: "and_then (Inl e) f = Inl e"
  by (simp add: and_then_def)

subsection \<open>Rounding to binary64\<close>

text \<open>
  The rounding is to a nearest integer multiple of \<open>ulp\<close>, the exponent brackets the
  number, and from the two follow the error of the rounding, the numbers it leaves as
  they are and the bounds that the divisions of \<^verbatim>\<open>_set_dimensions\<close> need.
\<close>

lemma round_even_error: "\<bar>real_of_int (round_even x) - x\<bar> \<le> 1 / 2"
  unfolding round_even_def Let_def by (auto; linarith)

lemma round_even_of_int: "round_even (real_of_int n) = n"
  by (simp add: round_even_def)

lemma round_even_ge: "real_of_int n \<le> x \<Longrightarrow> n \<le> round_even x"
proof -
  assume "real_of_int n \<le> x"
  then have "n \<le> \<lfloor>x\<rfloor>" by (simp add: le_floor_iff)
  moreover have "\<lfloor>x\<rfloor> \<le> round_even x" by (simp add: round_even_def Let_def)
  ultimately show ?thesis by linarith
qed

lemma two_powi_neg: "0 \<le> n \<Longrightarrow> (2::real) powi (- n) = 1 / 2 ^ nat n"
  by (simp only: power_int_minus_divide power_int_nonneg_exp)

lemma binade_bounds:
  assumes "x \<noteq> 0"
  shows "2 powi binade x \<le> \<bar>x\<bar>" and "\<bar>x\<bar> < 2 powi (binade x + 1)"
proof -
  have "2 powi binade x \<le> \<bar>x\<bar> \<and> \<bar>x\<bar> < 2 powi (binade x + 1)"
  proof (cases "1 \<le> \<bar>x\<bar>")
    case True
    define m where "m = \<lfloor>\<bar>x\<bar>\<rfloor>"
    have mpos: "0 < m" using True by (simp add: m_def)
    have b: "binade x = bitlen m - 1" using True by (simp add: binade_def m_def)
    have bl: "1 \<le> bitlen m" using mpos by (simp add: bitlen_alt_def)
    from bitlen_bounds [OF mpos]
    have lo: "2 ^ nat (bitlen m - 1) \<le> m" and hi: "m < 2 ^ nat (bitlen m)" by simp_all
    have "real_of_int m \<le> \<bar>x\<bar>" by (simp add: m_def)
    moreover have "(2::real) ^ nat (bitlen m - 1) \<le> real_of_int m"
      using lo by (metis of_int_le_iff of_int_numeral of_int_power)
    ultimately have "(2::real) ^ nat (bitlen m - 1) \<le> \<bar>x\<bar>" by (rule order_trans [rotated])
    moreover have "2 powi binade x = (2::real) ^ nat (bitlen m - 1)"
      using bl by (simp add: b power_int_def)
    ultimately have 1: "2 powi binade x \<le> \<bar>x\<bar>" by simp
    have "m + 1 \<le> 2 ^ nat (bitlen m)" using hi by simp
    then have "real_of_int (m + 1) \<le> (2::real) ^ nat (bitlen m)"
      by (metis of_int_le_iff of_int_numeral of_int_power)
    moreover have "\<bar>x\<bar> < real_of_int (m + 1)" unfolding m_def by linarith
    ultimately have "\<bar>x\<bar> < (2::real) ^ nat (bitlen m)" by (rule less_le_trans [rotated])
    moreover have "2 powi (binade x + 1) = (2::real) ^ nat (bitlen m)"
      using bl by (simp add: b power_int_def)
    ultimately have 2: "\<bar>x\<bar> < 2 powi (binade x + 1)" by simp
    from 1 2 show ?thesis ..
  next
    case False
    define y where "y = 1 / \<bar>x\<bar>"
    define m where "m = \<lceil>y\<rceil> - 1"
    have xpos: "0 < \<bar>x\<bar>" using assms by simp
    have y1: "1 < y" using False xpos by (simp add: y_def)
    have mpos: "0 < m" unfolding m_def using y1 by linarith
    have my: "real_of_int m < y" "y \<le> real_of_int m + 1" unfolding m_def by linarith+
    have b: "binade x = - bitlen m" using False by (simp add: binade_def m_def y_def)
    have bl: "1 \<le> bitlen m" using mpos by (simp add: bitlen_alt_def)
    from bitlen_bounds [OF mpos]
    have lo: "2 ^ nat (bitlen m - 1) \<le> m" and hi: "m < 2 ^ nat (bitlen m)" by simp_all
    have "m + 1 \<le> 2 ^ nat (bitlen m)" using hi by simp
    then have "real_of_int (m + 1) \<le> (2::real) ^ nat (bitlen m)"
      by (metis of_int_le_iff of_int_numeral of_int_power)
    then have "y \<le> 2 ^ nat (bitlen m)" using my(2) by linarith
    then have "1 / \<bar>x\<bar> \<le> 2 ^ nat (bitlen m)" by (simp add: y_def)
    then have "1 / 2 ^ nat (bitlen m) \<le> \<bar>x\<bar>"
      using xpos by (simp add: field_simps)
    moreover have "2 powi binade x = 1 / (2::real) ^ nat (bitlen m)"
      unfolding b using bl by (intro two_powi_neg) simp
    ultimately have 1: "2 powi binade x \<le> \<bar>x\<bar>" by simp
    have "(2::real) ^ nat (bitlen m - 1) \<le> real_of_int m"
      using lo by (metis of_int_le_iff of_int_numeral of_int_power)
    then have "2 ^ nat (bitlen m - 1) < y" using my(1) by linarith
    then have "2 ^ nat (bitlen m - 1) < 1 / \<bar>x\<bar>" by (simp add: y_def)
    then have "\<bar>x\<bar> < 1 / 2 ^ nat (bitlen m - 1)"
      using xpos by (simp add: field_simps)
    moreover have "2 powi (binade x + 1) = 1 / (2::real) ^ nat (bitlen m - 1)"
    proof -
      have "binade x + 1 = - (bitlen m - 1)" by (simp add: b)
      moreover have "(2::real) powi (- (bitlen m - 1)) = 1 / 2 ^ nat (bitlen m - 1)"
        using bl by (intro two_powi_neg) simp
      ultimately show ?thesis by (simp only:)
    qed
    ultimately have 2: "\<bar>x\<bar> < 2 powi (binade x + 1)" by simp
    from 1 2 show ?thesis ..
  qed
  then show "2 powi binade x \<le> \<bar>x\<bar>" and "\<bar>x\<bar> < 2 powi (binade x + 1)" by simp_all
qed


lemma two_powi_less_imp: "(2::real) powi m < 2 powi n \<Longrightarrow> m < n"
proof (rule ccontr)
  assume less: "(2::real) powi m < 2 powi n" and "\<not> m < n"
  then have "n \<le> m" by simp
  then have "(2::real) powi n \<le> 2 powi m" by (intro power_int_increasing) simp_all
  with less show False by simp
qed

lemma ulp_pos: "0 < ulp x"
  by (simp add: ulp_def)

lemma rnd_zero: "rnd 0 = 0"
  by (simp add: rnd_def round_even_def)

lemma rnd_error: "\<bar>rnd x - x\<bar> \<le> ulp x / 2"
proof -
  have "\<bar>real_of_int (round_even (x / ulp x)) - x / ulp x\<bar> \<le> 1 / 2"
    by (rule round_even_error)
  then have "\<bar>real_of_int (round_even (x / ulp x)) - x / ulp x\<bar> * ulp x \<le> 1 / 2 * ulp x"
    using ulp_pos [of x] by (intro mult_right_mono) simp_all
  moreover have "\<bar>real_of_int (round_even (x / ulp x)) - x / ulp x\<bar> * ulp x = \<bar>rnd x - x\<bar>"
  proof -
    have "\<bar>real_of_int (round_even (x / ulp x)) - x / ulp x\<bar> * ulp x
        = \<bar>(real_of_int (round_even (x / ulp x)) - x / ulp x) * ulp x\<bar>"
      using ulp_pos [of x] by (simp add: abs_mult)
    also have "(real_of_int (round_even (x / ulp x)) - x / ulp x) * ulp x = rnd x - x"
      using ulp_pos [of x] by (simp add: rnd_def left_diff_distrib)
    finally show ?thesis .
  qed
  ultimately show ?thesis by simp
qed

lemma binade_normal:
  assumes "1 / 2 ^ 1022 \<le> \<bar>x\<bar>"
  shows "- 1022 \<le> binade x"
proof -
  have x0: "x \<noteq> 0" using assms by auto
  have "(2::real) powi (- 1022) \<le> \<bar>x\<bar>" using assms by (simp add: power_int_minus_divide)
  also have "\<bar>x\<bar> < 2 powi (binade x + 1)" using x0 by (rule binade_bounds)
  finally have "(2::real) powi (- 1022) < 2 powi (binade x + 1)" .
  then have "- 1022 < binade x + 1" by (rule two_powi_less_imp)
  then show ?thesis by simp
qed

lemma ulp_normal:
  assumes "- 1022 \<le> binade x"
  shows "ulp x = 2 powi binade x / 2 ^ 52"
proof -
  have "max (binade x) (- 1022) = binade x" using assms by simp
  then have "ulp x = 2 powi (binade x - 52)" by (simp add: ulp_def)
  also have "\<dots> = 2 powi binade x / 2 powi 52" by (simp add: power_int_diff)
  finally show ?thesis by simp
qed

lemma ulp_le_normal:
  assumes "1 / 2 ^ 1022 \<le> \<bar>x\<bar>"
  shows "ulp x \<le> \<bar>x\<bar> / 2 ^ 52"
proof -
  have x0: "x \<noteq> 0" using assms by auto
  have "ulp x = 2 powi binade x / 2 ^ 52" using binade_normal [OF assms] by (rule ulp_normal)
  also have "\<dots> \<le> \<bar>x\<bar> / 2 ^ 52"
    using binade_bounds(1) [OF x0] by (simp add: divide_right_mono)
  finally show ?thesis .
qed

lemma rnd_relative_error:
  assumes "1 / 2 ^ 1022 \<le> \<bar>x\<bar>"
  shows "\<bar>rnd x - x\<bar> \<le> \<bar>x\<bar> / 2 ^ 53"
proof -
  have "\<bar>rnd x - x\<bar> \<le> ulp x / 2" by (rule rnd_error)
  also have "\<dots> \<le> (\<bar>x\<bar> / 2 ^ 52) / 2" using ulp_le_normal [OF assms] by simp
  also have "\<dots> = \<bar>x\<bar> / 2 ^ 53" by simp
  finally show ?thesis .
qed

lemma ulp_le: "ulp x \<le> \<bar>x\<bar> + 1"
proof (cases "x \<noteq> 0 \<and> - 1022 \<le> binade x")
  case True
  then have "ulp x = 2 powi binade x / 2 ^ 52" by (simp add: ulp_normal)
  also have "\<dots> \<le> 2 powi binade x" by (simp add: field_simps)
  also have "\<dots> \<le> \<bar>x\<bar>" using True by (simp add: binade_bounds)
  finally show ?thesis by simp
next
  case False
  have b0: "binade 0 = 0" by (simp add: binade_def bitlen_alt_def)
  have "max (binade x) (- 1022) - 52 \<le> 0"
    using False by (cases "x = 0") (simp_all add: b0)
  then have "ulp x \<le> 2 powi 0"
    unfolding ulp_def by (intro power_int_increasing) simp_all
  then show ?thesis by simp
qed

lemma rnd_bound:
  assumes "\<bar>x\<bar> < b" "1 \<le> b"
  shows "\<bar>rnd x\<bar> < 2 * b"
proof -
  have "\<bar>rnd x\<bar> \<le> \<bar>x\<bar> + \<bar>rnd x - x\<bar>" by linarith
  also have "\<dots> \<le> \<bar>x\<bar> + ulp x / 2" using rnd_error [of x] by linarith
  also have "\<dots> \<le> \<bar>x\<bar> + (\<bar>x\<bar> + 1) / 2" using ulp_le [of x] by simp
  also have "\<dots> < 2 * b" using assms by (simp add: field_simps)
  finally show ?thesis .
qed

lemma rnd_no_overflow:
  assumes "\<bar>x\<bar> < 2 ^ 1023"
  shows "\<bar>rnd x\<bar> < 2 ^ 1024"
proof -
  have "(1::real) \<le> 2 ^ 1023" by (rule one_le_power) simp
  with assms have "\<bar>rnd x\<bar> < 2 * 2 ^ 1023" by (rule rnd_bound)
  moreover have "(2::real) * 2 ^ 1023 = 2 ^ Suc 1023" by (simp only: power_Suc)
  moreover have "Suc 1023 = 1024" by simp
  ultimately show ?thesis by (simp only:)
qed

lemma rnd_ge_power2:
  assumes "2 ^ n \<le> x"
  shows "2 ^ n \<le> rnd x"
proof -
  have xpos: "0 < x" using assms by (rule less_le_trans [rotated]) simp
  then have x0: "x \<noteq> 0" and ax: "\<bar>x\<bar> = x" by simp_all
  have "(2::real) powi int n \<le> x" using assms by simp
  also have "x < 2 powi (binade x + 1)" using binade_bounds(2) [OF x0] ax by simp
  finally have "int n < binade x + 1" by (rule two_powi_less_imp)
  then have en: "int n \<le> binade x" by simp
  then have "- 1022 \<le> binade x" by simp
  then have u: "ulp x = 2 powi binade x / 2 ^ 52" by (rule ulp_normal)
  have lo: "2 powi binade x \<le> x" using binade_bounds(1) [OF x0] ax by simp
  have "real_of_int (2 ^ 52) \<le> x / ulp x"
    unfolding u using lo by (simp add: field_simps)
  then have "2 ^ 52 \<le> round_even (x / ulp x)" by (rule round_even_ge)
  then have "real_of_int (2 ^ 52) \<le> real_of_int (round_even (x / ulp x))"
    by (simp only: of_int_le_iff)
  then have "real_of_int (2 ^ 52) * ulp x \<le> rnd x"
    unfolding rnd_def using ulp_pos [of x] by (intro mult_right_mono) simp_all
  moreover have "real_of_int (2 ^ 52) * ulp x = 2 powi binade x"
    unfolding u by simp
  moreover have "(2::real) powi int n \<le> 2 powi binade x"
    using en by (intro power_int_increasing) simp_all
  ultimately show ?thesis by simp
qed

lemma rnd_ge_one:
  assumes "1 \<le> x"
  shows "1 \<le> rnd x"
  using rnd_ge_power2 [of 0 x] assms by simp

lemma rnd_of_int:
  assumes "\<bar>n\<bar> < 2 ^ 53"
  shows "rnd (real_of_int n) = real_of_int n"
proof (cases "n = 0")
  case True
  then show ?thesis by (simp add: rnd_zero)
next
  case False
  let ?x = "real_of_int n"
  have x0: "?x \<noteq> 0" using False by simp
  have "1 \<le> \<bar>n\<bar>" using False by simp
  then have "real_of_int 1 \<le> real_of_int \<bar>n\<bar>" by (simp only: of_int_le_iff)
  then have one: "1 \<le> \<bar>?x\<bar>" by simp
  have "(2::real) powi 0 \<le> \<bar>?x\<bar>" using one by simp
  also have "\<bar>?x\<bar> < 2 powi (binade ?x + 1)" using x0 by (rule binade_bounds)
  finally have "0 < binade ?x + 1" by (rule two_powi_less_imp)
  then have e0: "0 \<le> binade ?x" by simp
  have "real_of_int \<bar>n\<bar> < real_of_int (2 ^ 53)" using assms by (simp only: of_int_less_iff)
  then have "\<bar>?x\<bar> < 2 ^ 53" by simp
  then have "\<bar>?x\<bar> < 2 powi 53" by simp
  with binade_bounds(1) [OF x0] have "(2::real) powi binade ?x < 2 powi 53" by linarith
  then have "binade ?x < 53" by (rule two_powi_less_imp)
  then have e52: "binade ?x \<le> 52" by simp
  define s where "s = nat (52 - binade ?x)"
  have "max (binade ?x) (- 1022) - 52 = - int s" using e0 e52 by (simp add: s_def)
  then have "ulp ?x = 2 powi (- int s)" by (simp add: ulp_def)
  then have u: "ulp ?x = 1 / 2 ^ s" by (simp add: two_powi_neg)
  have "?x / ulp ?x = real_of_int (n * 2 ^ s)" by (simp add: u)
  then have "round_even (?x / ulp ?x) = n * 2 ^ s" by (simp only: round_even_of_int)
  then show ?thesis by (simp add: rnd_def u)
qed

subsection \<open>Conversions and divisions that do not raise\<close>

lemma py_int_nonneg: "0 \<le> r \<Longrightarrow> py_int r = \<lfloor>r\<rfloor>"
  by (simp add: py_int_def)

lemma float_of_int_exact:
  assumes "\<bar>n\<bar> < 2 ^ 53"
  shows "float_of_int n = Inr (real_of_int n)"
proof -
  have r: "rnd (real_of_int n) = real_of_int n" using assms by (rule rnd_of_int)
  have "real_of_int \<bar>n\<bar> < real_of_int (2 ^ 53)" using assms by (simp only: of_int_less_iff)
  then have "\<bar>real_of_int n\<bar> < 2 ^ 53" by simp
  also have "(2::real) ^ 53 \<le> 2 ^ 1024" by (rule power_increasing) simp_all
  finally have "\<not> 2 ^ 1024 \<le> \<bar>real_of_int n\<bar>" by simp
  then show ?thesis by (simp add: float_of_int_def r)
qed

lemma float_truediv_finite:
  assumes "t \<noteq> 0" "\<bar>x / t\<bar> < 2 ^ 1023"
  shows "float_truediv x t = Inr (Finite (rnd (x / t)))"
proof -
  have "\<bar>rnd (x / t)\<bar> < 2 ^ 1024" using assms(2) by (rule rnd_no_overflow)
  then have "\<not> 2 ^ 1024 \<le> \<bar>rnd (x / t)\<bar>" by simp
  then show ?thesis using assms(1) by (simp add: float_truediv_def)
qed

lemma int_truediv_small:
  assumes "1 \<le> k" "\<bar>a\<bar> < 2 ^ 53"
  shows "int_truediv a k = Inr (rnd (real_of_int a / real_of_int k))"
proof -
  have k1: "1 \<le> real_of_int k" using assms(1) by simp
  have "real_of_int \<bar>a\<bar> < real_of_int (2 ^ 53)" using assms(2) by (simp only: of_int_less_iff)
  then have a: "\<bar>real_of_int a\<bar> < 2 ^ 53" by simp
  have "\<bar>real_of_int a / real_of_int k\<bar> = \<bar>real_of_int a\<bar> / real_of_int k"
    using k1 by simp
  also have "\<dots> \<le> \<bar>real_of_int a\<bar> / 1"
    using k1 by (intro divide_left_mono) simp_all
  also have "\<dots> = \<bar>real_of_int a\<bar>" by simp
  also note a
  also have "(2::real) ^ 53 \<le> 2 ^ 1023" by (rule power_increasing) simp_all
  finally have "\<bar>rnd (real_of_int a / real_of_int k)\<bar> < 2 ^ 1024" by (rule rnd_no_overflow)
  then have "\<not> 2 ^ 1024 \<le> \<bar>rnd (real_of_int a / real_of_int k)\<bar>" by simp
  moreover have "k \<noteq> 0" using assms(1) by simp
  ultimately show ?thesis by (simp add: int_truediv_def)
qed

subsection \<open>Solving the dimensions\<close>

text \<open>
  The ratio that line 158 computes for a target that fits into the pixels of its axis:
  at least one, and finite when the target is not below \<open>1 / 2 ^ 970\<close>.
\<close>

lemma ratio_of_fitting_target:
  assumes t: "1 / 2 ^ 970 \<le> t" "t \<le> real_of_int p" and p: "p < 2 ^ 53"
  shows "and_then (and_then (float_of_int p) (\<lambda>x. float_truediv x t)) int_of_float =
           Inr \<lfloor>rnd (real_of_int p / t)\<rfloor>"
    and "1 \<le> \<lfloor>rnd (real_of_int p / t)\<rfloor>"
proof -
  have tpos: "0 < t" using t(1) by (rule less_le_trans [rotated]) simp
  have ppos: "0 < real_of_int p" using tpos t(2) by linarith
  then have "\<bar>p\<bar> < 2 ^ 53" using p by simp
  then have conv: "float_of_int p = Inr (real_of_int p)" by (rule float_of_int_exact)
  have x1: "1 \<le> real_of_int p / t" using tpos t(2) by simp
  have "real_of_int p < real_of_int (2 ^ 53)" using p by (simp only: of_int_less_iff)
  then have p53: "real_of_int p < 2 ^ 53" by simp
  have "real_of_int p / t \<le> real_of_int p * 2 ^ 970"
  proof -
    have "real_of_int p * 1 \<le> real_of_int p * (t * 2 ^ 970)"
      using t(1) ppos by (intro mult_left_mono) (simp_all add: field_simps)
    then show ?thesis using tpos by (simp add: field_simps)
  qed
  also have "\<dots> < 2 ^ 53 * 2 ^ 970" using p53 by (intro mult_strict_right_mono) simp_all
  also have "\<dots> = (2::real) ^ 1023" by (simp only: power_add [symmetric]) simp
  finally have "\<bar>real_of_int p / t\<bar> < 2 ^ 1023" using x1 by simp
  with tpos have quot: "float_truediv (real_of_int p) t = Inr (Finite (rnd (real_of_int p / t)))"
    by (intro float_truediv_finite) simp_all
  have q1: "1 \<le> rnd (real_of_int p / t)" using x1 by (rule rnd_ge_one)
  then have "py_int (rnd (real_of_int p / t)) = \<lfloor>rnd (real_of_int p / t)\<rfloor>"
    by (intro py_int_nonneg) simp
  then show "and_then (and_then (float_of_int p) (\<lambda>x. float_truediv x t)) int_of_float =
           Inr \<lfloor>rnd (real_of_int p / t)\<rfloor>"
    by (simp add: conv quot int_of_float_def and_then_def)
  show "1 \<le> \<lfloor>rnd (real_of_int p / t)\<rfloor>" using q1 by linarith
qed

lemma set_dimensions_width:
  assumes vd: "viewport_dimensions self = (vw, vh)"
    and t: "1 / 2 ^ 970 \<le> t" "t \<le> real_of_int vw"
    and v: "vw < 2 ^ 53" "\<bar>vh\<bar> < 2 ^ 53"
  shows "set_dimensions self (Some t) None =
      (None, self\<lparr>pixel_ratio := Some \<lfloor>rnd (real_of_int vw / t)\<rfloor>,
         priv_width := Some (rnd (real_of_int vw / real_of_int \<lfloor>rnd (real_of_int vw / t)\<rfloor>)),
         priv_height := Some (rnd (real_of_int vh / real_of_int \<lfloor>rnd (real_of_int vw / t)\<rfloor>))\<rparr>)"
proof -
  note r = ratio_of_fitting_target [OF t v(1)]
  have "0 < t" using t(1) by (rule less_le_trans [rotated]) simp
  then have "0 < real_of_int vw" using t(2) by linarith
  then have "\<bar>vw\<bar> < 2 ^ 53" using v(1) by simp
  then have w: "int_truediv vw \<lfloor>rnd (real_of_int vw / t)\<rfloor> =
      Inr (rnd (real_of_int vw / real_of_int \<lfloor>rnd (real_of_int vw / t)\<rfloor>))"
    using r(2) by (intro int_truediv_small)
  have h: "int_truediv vh \<lfloor>rnd (real_of_int vw / t)\<rfloor> =
      Inr (rnd (real_of_int vh / real_of_int \<lfloor>rnd (real_of_int vw / t)\<rfloor>))"
    using r(2) v(2) by (intro int_truediv_small)
  show ?thesis
    by (simp add: set_dimensions_def vd r(1) w h)
qed

lemma set_dimensions_height:
  assumes vd: "viewport_dimensions self = (vw, vh)"
    and t: "1 / 2 ^ 970 \<le> t" "t \<le> real_of_int vh"
    and v: "vh < 2 ^ 53" "\<bar>vw\<bar> < 2 ^ 53"
  shows "set_dimensions self None (Some t) =
      (None, self\<lparr>pixel_ratio := Some \<lfloor>rnd (real_of_int vh / t)\<rfloor>,
         priv_width := Some (rnd (real_of_int vw / real_of_int \<lfloor>rnd (real_of_int vh / t)\<rfloor>)),
         priv_height := Some (rnd (real_of_int vh / real_of_int \<lfloor>rnd (real_of_int vh / t)\<rfloor>))\<rparr>)"
proof -
  note r = ratio_of_fitting_target [OF t v(1)]
  have "0 < t" using t(1) by (rule less_le_trans [rotated]) simp
  then have "0 < real_of_int vh" using t(2) by linarith
  then have "\<bar>vh\<bar> < 2 ^ 53" using v(1) by simp
  then have h: "int_truediv vh \<lfloor>rnd (real_of_int vh / t)\<rfloor> =
      Inr (rnd (real_of_int vh / real_of_int \<lfloor>rnd (real_of_int vh / t)\<rfloor>))"
    using r(2) by (intro int_truediv_small)
  have w: "int_truediv vw \<lfloor>rnd (real_of_int vh / t)\<rfloor> =
      Inr (rnd (real_of_int vw / real_of_int \<lfloor>rnd (real_of_int vh / t)\<rfloor>))"
    using r(2) v(2) by (intro int_truediv_small)
  show ?thesis
    by (simp add: set_dimensions_def vd r(1) w h)
qed

text \<open>With one target no \<^verbatim>\<open>ValueError\<close> is left.\<close>

lemma set_dimensions_one_target_no_ValueError:
  "fst (set_dimensions self (Some t) None) \<noteq> Some (ValueError m)"
  "fst (set_dimensions self None (Some t)) \<noteq> Some (ValueError m)"
  by (auto simp: set_dimensions_def and_then_def float_of_int_def float_truediv_def
      int_of_float_def int_truediv_def Let_def
      split: prod.splits sum.splits if_splits pyfloat.splits)

text \<open>
  The realized width is the target up to two roundings: the quotient of line 158 is at
  most \<open>1 + 1 / 2 ^ 53\<close> times the exact one, and the width of line 159 at least
  \<open>1 - 1 / 2 ^ 53\<close> times its exact quotient.
\<close>

lemma near_target_arith:
  fixes t y w a :: real
  assumes "0 \<le> a" "2 * a \<le> 1" "0 \<le> y" "t \<le> y * (1 + a)" "y - y * a \<le> w"
  shows "t * (1 - 2 * a) \<le> w"
proof -
  have "t * (1 - 2 * a) \<le> y * (1 + a) * (1 - 2 * a)"
    using assms(2,4) by (intro mult_right_mono) simp_all
  also have "\<dots> = (y - y * a) - y * (2 * a * a)" by (simp add: algebra_simps)
  also have "\<dots> \<le> y - y * a" using assms(1,3) by simp
  also note assms(5)
  finally show ?thesis .
qed

lemma width_near_target:
  assumes t: "1 / 2 ^ 970 \<le> t" "t \<le> real_of_int p" and p: "p < 2 ^ 53"
  shows "t * (1 - 1 / 2 ^ 52) \<le> rnd (real_of_int p / real_of_int \<lfloor>rnd (real_of_int p / t)\<rfloor>)"
proof -
  define a :: real where "a = 1 / 2 ^ 53"
  define x where "x = real_of_int p / t"
  define k where "k = \<lfloor>rnd x\<rfloor>"
  define y where "y = real_of_int p / real_of_int k"
  have a0: "0 \<le> a" and a2: "2 * a = 1 / 2 ^ 52" and a1: "2 * a \<le> 1" by (simp_all add: a_def)
  have tpos: "0 < t" using t(1) by (rule less_le_trans [rotated]) simp
  have ppos: "0 < real_of_int p" using tpos t(2) by linarith
  have x1: "1 \<le> x" using tpos t(2) by (simp add: x_def)
  have k1: "1 \<le> k" unfolding k_def x_def using t p by (rule ratio_of_fitting_target(2))
  then have krpos: "0 < real_of_int k" by simp
  have "(1::real) / 2 ^ 1022 \<le> 1" by simp
  then have "1 / 2 ^ 1022 \<le> \<bar>x\<bar>" using x1 by linarith
  then have "\<bar>rnd x - x\<bar> \<le> \<bar>x\<bar> / 2 ^ 53" by (rule rnd_relative_error)
  moreover have "\<bar>x\<bar> / 2 ^ 53 = x * a" using x1 by (simp add: a_def)
  ultimately have "rnd x - x \<le> x * a" by linarith
  then have q: "rnd x \<le> x * (1 + a)" by (simp add: algebra_simps)
  have "real_of_int k \<le> rnd x" by (simp add: k_def)
  with q have kx: "real_of_int k \<le> x * (1 + a)" by linarith
  have ypos: "0 < y" using ppos krpos by (simp add: y_def)
  have ty: "t \<le> y * (1 + a)"
  proof -
    have "real_of_int k * t \<le> x * (1 + a) * t" using kx tpos by (intro mult_right_mono) simp_all
    also have "\<dots> = real_of_int p * (1 + a)" using tpos by (simp add: x_def)
    finally have "t * real_of_int k \<le> real_of_int p * (1 + a)" by (simp add: mult.commute)
    then have "t \<le> real_of_int p * (1 + a) / real_of_int k"
      using krpos by (simp add: pos_le_divide_eq)
    then show ?thesis by (simp add: y_def)
  qed
  have "1 / 2 ^ 1022 \<le> y"
  proof -
    have "(1::real) + a \<le> 2" by (simp add: a_def)
    then have "y * (1 + a) \<le> y * 2" using ypos by (intro mult_left_mono) simp_all
    with ty have "t \<le> y * 2" by linarith
    moreover have "(1::real) / 2 ^ 1022 * 2 \<le> 1 / 2 ^ 970" by simp
    ultimately show ?thesis using t(1) by linarith
  qed
  then have "1 / 2 ^ 1022 \<le> \<bar>y\<bar>" using ypos by simp
  then have "\<bar>rnd y - y\<bar> \<le> \<bar>y\<bar> / 2 ^ 53" by (rule rnd_relative_error)
  moreover have "\<bar>y\<bar> / 2 ^ 53 = y * a" using ypos by (simp add: a_def)
  ultimately have w: "y - y * a \<le> rnd y" by linarith
  have "t * (1 - 2 * a) \<le> rnd y"
    using a0 a1 _ ty w by (rule near_target_arith) (use ypos in simp)
  then show ?thesis by (simp only: a2 y_def k_def x_def)
qed

text \<open>Values of the rounding that the examples need.\<close>

lemma rnd_small_ints: "rnd 5 = 5" "rnd 6 = 6" "rnd 8 = 8" "rnd 100 = 100" "rnd 800 = 800"
  using rnd_of_int [of 5] rnd_of_int [of 6] rnd_of_int [of 8] rnd_of_int [of 100]
    rnd_of_int [of 800]
  by simp_all

lemma rnd_examples:
  "rnd (5 / 8) = 5 / 8"
  "rnd (4 / 5) = 3602879701896397 / 4503599627370496"
  "rnd (900719925474099200 / 8578285004515231) = 105"
  "rnd (160 / 21) = 4289142502257615 / 562949953421312"
  "rnd (40 / 7) = 6433713753386423 / 1125899906842624"
  by code_simp+

subsection \<open>The ratio is the truncation of the rounded quotient\<close>

text \<open>
  The float 0.1 is 3602879701896397 / 2 ^ 55, a little more than a tenth: the exact
  quotient of 800 by it is below 8000, the float quotient is 8000.0, and line 158
  truncates the float.
\<close>

lemma ratio_of_a_tenth:
  "\<lfloor>(800::real) / (3602879701896397 / 36028797018963968)\<rfloor> = 7999"
  "and_then (and_then (float_of_int 800)
      (\<lambda>x. float_truediv x (3602879701896397 / 36028797018963968))) int_of_float = Inr 8000"
proof -
  show "\<lfloor>(800::real) / (3602879701896397 / 36028797018963968)\<rfloor> = 7999" by simp
  have r: "rnd (28823037615171174400 / 3602879701896397) = 8000" by code_simp
  show "and_then (and_then (float_of_int 800)
      (\<lambda>x. float_truediv x (3602879701896397 / 36028797018963968))) int_of_float = Inr 8000"
    using ratio_of_fitting_target(1) [of "3602879701896397 / 36028797018963968" 800]
    by (simp add: r)
qed

text \<open>
  The float 1e-306 is 6325070415853457 / 2 ^ 1069. The quotient of 800 by it is beyond
  the largest float, so it is infinite and \<^verbatim>\<open>int\<close> raises, before any assignment.
\<close>

lemma tiny_target_overflows:
  "set_width
       \<lparr>renderer = (), target_game_unit_width = 8, viewport_dimensions = (800, 600),
        pixel_ratio = Some 100, priv_width = Some 8, priv_height = Some 6,
        position = Vector 0 0\<rparr> (6325070415853457 / 2 ^ 1069) =
       (Some OverflowError,
        \<lparr>renderer = (), target_game_unit_width = 8, viewport_dimensions = (800, 600),
         pixel_ratio = Some 100, priv_width = Some 8, priv_height = Some 6,
         position = Vector 0 0\<rparr>)"
proof -
  have c800: "float_of_int 800 = Inr 800"
    using float_of_int_exact [of 800] by simp
  have "(2::real) ^ 1024 \<le> 800 / (6325070415853457 / 2 ^ 1069)" by simp
  then have "2 ^ 1024 \<le> rnd (800 / (6325070415853457 / 2 ^ 1069))" by (rule rnd_ge_power2)
  then have "2 ^ 1024 \<le> \<bar>rnd (800 / (6325070415853457 / 2 ^ 1069))\<bar>" by linarith
  then have q: "float_truediv 800 (6325070415853457 / 2 ^ 1069) = Inr Infinity"
    unfolding float_truediv_def by (simp only: if_True) simp
  show ?thesis
    using q by (simp add: set_width_def set_dimensions_def c800 int_of_float_def)
qed

subsection \<open>The edges of the two cameras\<close>




lemma frame_left_eq:
  "old_pixel_ratio self \<noteq> 0 \<Longrightarrow>
   frame_left self = Inr (vec_x (old_position self)
      - real_of_int (priv_viewport_width self) / old_pixel_ratio self / 2)"
  by (simp add: frame_left_def half_width_def frame_width_def truediv_def viewport_width_def)

lemma frame_right_eq:
  "old_pixel_ratio self \<noteq> 0 \<Longrightarrow>
   frame_right self = Inr (vec_x (old_position self)
      + real_of_int (priv_viewport_width self) / old_pixel_ratio self / 2)"
  by (simp add: frame_right_def half_width_def frame_width_def truediv_def viewport_width_def)

lemma frame_top_eq:
  "old_pixel_ratio self \<noteq> 0 \<Longrightarrow>
   frame_top self = Inr (vec_y (old_position self)
      + real_of_int (priv_viewport_height self) / old_pixel_ratio self / 2)"
  by (simp add: frame_top_def half_height_def frame_height_def truediv_def viewport_height_def)

lemma frame_bottom_eq:
  "old_pixel_ratio self \<noteq> 0 \<Longrightarrow>
   frame_bottom self = Inr (vec_y (old_position self)
      - real_of_int (priv_viewport_height self) / old_pixel_ratio self / 2)"
  by (simp add: frame_bottom_def half_height_def frame_height_def truediv_def viewport_height_def)

lemma in_frame_True_iff:
  "(in_frame self s = Inr True) =
     (\<exists>fl fr ft fb. frame_left self = Inr fl \<and> frame_right self = Inr fr
        \<and> frame_top self = Inr ft \<and> frame_bottom self = Inr fb
        \<and> fl \<le> sprite_right s \<and> fr \<ge> sprite_left s \<and> ft \<ge> sprite_bottom s \<and> fb \<le> sprite_top s)"
  by (cases "frame_left self"; cases "frame_right self"; cases "frame_top self";
      cases "frame_bottom self")
     (simp_all add: in_frame_def)

lemma in_frame_edges:
  assumes "frame_left self = Inr fl" "frame_right self = Inr fr"
    "frame_top self = Inr ft" "frame_bottom self = Inr fb"
  shows "in_frame self s =
     Inr (fl \<le> sprite_right s \<and> fr \<ge> sprite_left s \<and> ft \<ge> sprite_bottom s \<and> fb \<le> sprite_top s)"
  using assms by (simp add: in_frame_def)

subsection \<open>The offset cache\<close>

lemma set_viewport_width_synced: "offset_synced (set_viewport_width self v)"
  by (simp add: offset_synced_def set_viewport_width_def viewport_width_def viewport_height_def)

lemma set_viewport_height_synced: "offset_synced (set_viewport_height self v)"
  by (simp add: offset_synced_def set_viewport_height_def viewport_width_def viewport_height_def)

lemma OldCamera_init_synced: "OldCamera_init vp k = Inr c \<Longrightarrow> offset_synced c"
  by (auto simp: OldCamera_init_def getitem_def offset_synced_def viewport_width_def
      viewport_height_def split: if_splits)

lemma apply_setter_synced: "offset_synced (apply_setter self call)"
  by (cases call) (simp_all add: set_viewport_width_synced set_viewport_height_synced)

lemma foldl_apply_setter_synced:
  "offset_synced self \<Longrightarrow> offset_synced (foldl apply_setter self calls)"
  by (induction calls arbitrary: self) (simp_all add: apply_setter_synced)

section \<open>The claims\<close>

subsection \<open>Solving the dimensions\<close>

text \<open>
  C1. The claim promises a ratio, a width and a height for every positive viewport width
  and every positive target, and the docstring of \<^verbatim>\<open>__init__\<close> says of a target beyond the
  pixels that the width "can only be as wide as there are pixels". The code does
  neither: for a positive target above the pixel count the ratio \<open>int(pixels / target)\<close>
  is 0 and the division of line 159 raises. The constructor for a viewport of 5 by 5
  pixels and the target 8 raises \<^verbatim>\<open>ZeroDivisionError\<close>, and so does the setter of
  \<^verbatim>\<open>width\<close> with the target 1000 on the camera of 800 by 600 pixels, where it leaves
  \<^verbatim>\<open>pixel_ratio\<close> 0 beside the width 8 and the height 6 of before.
\<close>

theorem target_above_pixels_raises:
  "Camera_init () 8 (5, 5) = Inl ZeroDivisionError
   \<and> set_width
       \<lparr>renderer = (), target_game_unit_width = 8, viewport_dimensions = (800, 600),
        pixel_ratio = Some 100, priv_width = Some 8, priv_height = Some 6,
        position = Vector 0 0\<rparr> 1000 =
       (Some ZeroDivisionError,
        \<lparr>renderer = (), target_game_unit_width = 8, viewport_dimensions = (800, 600),
         pixel_ratio = Some 0, priv_width = Some 8, priv_height = Some 6,
         position = Vector 0 0\<rparr>)"
proof -
  have c5: "float_of_int 5 = Inr 5" and c800: "float_of_int 800 = Inr 800"
    using float_of_int_exact [of 5] float_of_int_exact [of 800] by simp_all
  have q5: "float_truediv 5 8 = Inr (Finite (5 / 8))"
    using float_truediv_finite [of 8 5] by (simp add: rnd_examples)
  have q800: "float_truediv 800 1000 = Inr (Finite (3602879701896397 / 4503599627370496))"
    using float_truediv_finite [of 1000 800] by (simp add: rnd_examples)
  show ?thesis
    by (simp add: Camera_init_def set_width_def set_dimensions_def c5 c800 q5 q800
        int_of_float_def py_int_def int_truediv_def)
qed

text \<open>
  C3. \<^verbatim>\<open>_set_dimensions\<close> raises a \<^verbatim>\<open>ValueError\<close> (the spec's InvalidArgument) exactly
  when both targets are supplied or neither is. With exactly one target and
  non-degenerate positive inputs no exception is raised at all: the target is positive,
  at most the pixels of its axis and at least \<open>1 / 2 ^ 970\<close>, and the viewport is below
  \<open>2 ^ 53\<close> pixels either way, so that no quotient is zero or too large for a float.
  The setters of \<^verbatim>\<open>width\<close> and \<^verbatim>\<open>height\<close> and the constructor supply exactly one target,
  so they never raise the \<^verbatim>\<open>ValueError\<close>.
\<close>

theorem set_dimensions_ValueError_iff:
  "((\<exists>m. fst (set_dimensions self tw th) = Some (ValueError m)) =
      ((tw \<noteq> None \<and> th \<noteq> None) \<or> (tw = None \<and> th = None)))
   \<and> (viewport_dimensions self = (vw, vh) \<and> 0 < t \<and> t \<le> real_of_int vw
        \<and> 1 / 2 ^ 970 \<le> t \<and> vw < 2 ^ 53 \<and> \<bar>vh\<bar> < 2 ^ 53 \<longrightarrow>
        fst (set_dimensions self (Some t) None) = None)
   \<and> (viewport_dimensions self = (vw, vh) \<and> 0 < t \<and> t \<le> real_of_int vh
        \<and> 1 / 2 ^ 970 \<le> t \<and> vh < 2 ^ 53 \<and> \<bar>vw\<bar> < 2 ^ 53 \<longrightarrow>
        fst (set_dimensions self None (Some t)) = None)
   \<and> fst (set_width self t) \<noteq> Some (ValueError m)
   \<and> fst (set_height self t) \<noteq> Some (ValueError m)
   \<and> Camera_init rend t (vw, vh) \<noteq> Inl (ValueError m)"
proof -
  have iff: "(\<exists>m. fst (set_dimensions self tw th) = Some (ValueError m)) =
      ((tw \<noteq> None \<and> th \<noteq> None) \<or> (tw = None \<and> th = None))"
  proof (cases tw)
    case None
    show ?thesis
    proof (cases th)
      case None
      with \<open>tw = None\<close> show ?thesis
        by (simp add: set_dimensions_def split: prod.splits)
    next
      case (Some b)
      with \<open>tw = None\<close> show ?thesis
        by (simp add: set_dimensions_one_target_no_ValueError)
    qed
  next
    case (Some a)
    show ?thesis
    proof (cases th)
      case None
      with \<open>tw = Some a\<close> show ?thesis
        by (simp add: set_dimensions_one_target_no_ValueError)
    next
      case (Some b)
      with \<open>tw = Some a\<close> show ?thesis
        by (simp add: set_dimensions_def split: prod.splits)
    qed
  qed
  have w: "viewport_dimensions self = (vw, vh) \<and> 0 < t \<and> t \<le> real_of_int vw
        \<and> 1 / 2 ^ 970 \<le> t \<and> vw < 2 ^ 53 \<and> \<bar>vh\<bar> < 2 ^ 53 \<longrightarrow>
        fst (set_dimensions self (Some t) None) = None"
    by (auto simp only: set_dimensions_width fst_conv)
  have h: "viewport_dimensions self = (vw, vh) \<and> 0 < t \<and> t \<le> real_of_int vh
        \<and> 1 / 2 ^ 970 \<le> t \<and> vh < 2 ^ 53 \<and> \<bar>vw\<bar> < 2 ^ 53 \<longrightarrow>
        fst (set_dimensions self None (Some t)) = None"
    by (auto simp only: set_dimensions_height fst_conv)
  have sw: "fst (set_width self t) \<noteq> Some (ValueError m)"
    by (simp add: set_width_def set_dimensions_one_target_no_ValueError)
  have sh: "fst (set_height self t) \<noteq> Some (ValueError m)"
    by (simp add: set_height_def set_dimensions_one_target_no_ValueError)
  have ci: "Camera_init rend t (vw, vh) \<noteq> Inl (ValueError m)"
    using set_dimensions_one_target_no_ValueError(1)
      [of "\<lparr>renderer = rend, target_game_unit_width = t,
                  viewport_dimensions = (vw, vh), pixel_ratio = None,
                  priv_width = None, priv_height = None, position = Vector 0 0\<rparr>" t m]
    by (auto simp: Camera_init_def split: prod.splits option.splits)
  from iff w h sw sh ci show ?thesis by blast
qed

text \<open>
  The spec's example: on a camera with a viewport of 800 by 600 pixels, the targets
  800 and 450 together raise, no target raises, and the target 8 alone, as a width or
  as a height, does not.
\<close>

theorem set_dimensions_ValueError_iff_witness:
  "(\<exists>m. fst (set_dimensions
        \<lparr>renderer = (), target_game_unit_width = 8, viewport_dimensions = (800, 600),
         pixel_ratio = Some 100, priv_width = Some 8, priv_height = Some 6,
         position = Vector 0 0\<rparr> (Some 800) (Some 450)) = Some (ValueError m))
   \<and> (\<exists>m. fst (set_dimensions
        \<lparr>renderer = (), target_game_unit_width = 8, viewport_dimensions = (800, 600),
         pixel_ratio = Some 100, priv_width = Some 8, priv_height = Some 6,
         position = Vector 0 0\<rparr> None None) = Some (ValueError m))
   \<and> viewport_dimensions
        \<lparr>renderer = (), target_game_unit_width = 8, viewport_dimensions = (800, 600),
         pixel_ratio = Some 100, priv_width = Some 8, priv_height = Some 6,
         position = Vector 0 0\<rparr> = (800, 600)
   \<and> (0 :: real) < 8 \<and> (8 :: real) \<le> real_of_int 800 \<and> (8 :: real) \<le> real_of_int 600
   \<and> (1 :: real) / 2 ^ 970 \<le> 8 \<and> (800 :: int) < 2 ^ 53 \<and> \<bar>600 :: int\<bar> < 2 ^ 53
   \<and> (600 :: int) < 2 ^ 53 \<and> \<bar>800 :: int\<bar> < 2 ^ 53
   \<and> fst (set_dimensions
        \<lparr>renderer = (), target_game_unit_width = 8, viewport_dimensions = (800, 600),
         pixel_ratio = Some 100, priv_width = Some 8, priv_height = Some 6,
         position = Vector 0 0\<rparr> (Some 8) None) = None
   \<and> fst (set_dimensions
        \<lparr>renderer = (), target_game_unit_width = 8, viewport_dimensions = (800, 600),
         pixel_ratio = Some 100, priv_width = Some 8, priv_height = Some 6,
         position = Vector 0 0\<rparr> None (Some 8)) = None"
  using
    set_dimensions_ValueError_iff
      [of "\<lparr>renderer = (), target_game_unit_width = 8, viewport_dimensions = (800, 600),
            pixel_ratio = Some 100, priv_width = Some 8, priv_height = Some 6,
            position = Vector 0 0\<rparr>" "Some 800" "Some 450" 800 600 8 "[]" "()"]
    set_dimensions_ValueError_iff
      [of "\<lparr>renderer = (), target_game_unit_width = 8, viewport_dimensions = (800, 600),
            pixel_ratio = Some 100, priv_width = Some 8, priv_height = Some 6,
            position = Vector 0 0\<rparr>" None None 800 600 8 "[]" "()"]
  by simp

text \<open>
  C9. When \<^verbatim>\<open>_set_dimensions\<close> raises its \<^verbatim>\<open>ValueError\<close>, for two targets or for none,
  the camera is the one it was called on: \<^verbatim>\<open>pixel_ratio\<close>, \<^verbatim>\<open>_width\<close> and \<^verbatim>\<open>_height\<close>
  keep their values, as does every other attribute.
\<close>

theorem set_dimensions_ValueError_keeps_state:
  "set_dimensions self (Some a) (Some b) =
     (Some (ValueError ''Can only set one dimension at a time.''), self)
   \<and> set_dimensions self None None =
     (Some (ValueError ''Must set target_width or target_height''), self)"
  by (simp add: set_dimensions_def split: prod.splits)

text \<open>
  C10, as amended. For every target width \<open>t\<close> from \<open>1 / 2 ^ 970\<close> up to the viewport's
  pixel width, on a viewport below \<open>2 ^ 53\<close> pixels either way, the setter of \<^verbatim>\<open>width\<close>
  returns normally with a \<^verbatim>\<open>pixel_ratio\<close> \<open>k \<ge> 1\<close>, the width \<open>w\<close> the float nearest to
  \<open>vw / k\<close> and the height the float nearest to \<open>vh / k\<close>, and the width is at least the
  target less one part in \<open>2 ^ 52\<close>: \<open>w \<ge> t * (1 - 1 / 2 ^ 52)\<close>.
\<close>

theorem realized_width_near_target:
  assumes "viewport_dimensions self = (vw, vh)"
    and "1 / 2 ^ 970 \<le> t" "t \<le> real_of_int vw" "vw < 2 ^ 53" "\<bar>vh\<bar> < 2 ^ 53"
  shows "\<exists>k w h. set_width self t =
                 (None, self\<lparr>pixel_ratio := Some k, priv_width := Some w, priv_height := Some h\<rparr>)
               \<and> 1 \<le> k \<and> t * (1 - 1 / 2 ^ 52) \<le> w
               \<and> w = rnd (real_of_int vw / real_of_int k)
               \<and> h = rnd (real_of_int vh / real_of_int k)"
proof (intro exI conjI)
  show "set_width self t =
      (None, self\<lparr>pixel_ratio := Some \<lfloor>rnd (real_of_int vw / t)\<rfloor>,
         priv_width := Some (rnd (real_of_int vw / real_of_int \<lfloor>rnd (real_of_int vw / t)\<rfloor>)),
         priv_height := Some (rnd (real_of_int vh / real_of_int \<lfloor>rnd (real_of_int vw / t)\<rfloor>))\<rparr>)"
    unfolding set_width_def using assms by (rule set_dimensions_width)
  show "1 \<le> \<lfloor>rnd (real_of_int vw / t)\<rfloor>"
    using assms(2,3,4) by (rule ratio_of_fitting_target(2))
  show "t * (1 - 1 / 2 ^ 52)
      \<le> rnd (real_of_int vw / real_of_int \<lfloor>rnd (real_of_int vw / t)\<rfloor>)"
    using assms(2,3,4) by (rule width_near_target)
qed (rule refl)+

text \<open>
  At a viewport of 800 by 600 pixels and the target 7.6190476190476195, the float
  8578285004515231 / 2 ^ 50.
\<close>

theorem realized_width_near_target_witness:
  "viewport_dimensions
     \<lparr>renderer = (), target_game_unit_width = 8, viewport_dimensions = (800, 600),
      pixel_ratio = Some 100, priv_width = Some 8, priv_height = Some 6,
      position = Vector 0 0\<rparr> = (800, 600)
   \<and> (1 :: real) / 2 ^ 970 \<le> 8578285004515231 / 1125899906842624
   \<and> (8578285004515231 :: real) / 1125899906842624 \<le> real_of_int 800
   \<and> (800 :: int) < 2 ^ 53 \<and> \<bar>600 :: int\<bar> < 2 ^ 53
   \<and> (\<exists>k w h. set_width
        \<lparr>renderer = (), target_game_unit_width = 8, viewport_dimensions = (800, 600),
         pixel_ratio = Some 100, priv_width = Some 8, priv_height = Some 6,
         position = Vector 0 0\<rparr> (8578285004515231 / 1125899906842624) =
        (None, \<lparr>renderer = (), target_game_unit_width = 8, viewport_dimensions = (800, 600),
                pixel_ratio = Some k, priv_width = Some w, priv_height = Some h,
                position = Vector 0 0\<rparr>)
        \<and> 1 \<le> k \<and> 8578285004515231 / 1125899906842624 * (1 - 1 / 2 ^ 52) \<le> w
        \<and> w = rnd (800 / real_of_int k) \<and> h = rnd (600 / real_of_int k))"
  using realized_width_near_target
    [of "\<lparr>renderer = (), target_game_unit_width = 8, viewport_dimensions = (800, 600),
          pixel_ratio = Some 100, priv_width = Some 8, priv_height = Some 6,
          position = Vector 0 0\<rparr>" 800 600 "8578285004515231 / 1125899906842624"]
  by simp

text \<open>
  C10 as stated fails on floats. On the camera of 800 by 600 pixels the target width
  7.6190476190476195, that is 8578285004515231 / 2 ^ 50, is positive and below 800. The
  exact quotient is a little below 105 and rounds to the float 105, so \<^verbatim>\<open>pixel_ratio\<close> is
  105, and the width is the float nearest to 800 / 105, which is 8578285004515230 /
  2 ^ 50: less than the target.
\<close>

theorem realized_width_below_target_counterexample:
  "(0 :: real) < 8578285004515231 / 1125899906842624
   \<and> (8578285004515231 :: real) / 1125899906842624 \<le> real_of_int 800
   \<and> set_width
       \<lparr>renderer = (), target_game_unit_width = 8, viewport_dimensions = (800, 600),
        pixel_ratio = Some 100, priv_width = Some 8, priv_height = Some 6,
        position = Vector 0 0\<rparr> (8578285004515231 / 1125899906842624) =
       (None, \<lparr>renderer = (), target_game_unit_width = 8, viewport_dimensions = (800, 600),
               pixel_ratio = Some 105, priv_width = Some (8578285004515230 / 1125899906842624),
               priv_height = Some (6433713753386423 / 1125899906842624),
               position = Vector 0 0\<rparr>)
   \<and> (8578285004515230 :: real) / 1125899906842624 < 8578285004515231 / 1125899906842624"
proof -
  have "set_dimensions
       \<lparr>renderer = (), target_game_unit_width = 8, viewport_dimensions = (800, 600),
        pixel_ratio = Some 100, priv_width = Some 8, priv_height = Some 6,
        position = Vector 0 0\<rparr> (Some (8578285004515231 / 1125899906842624)) None =
       (None, \<lparr>renderer = (), target_game_unit_width = 8, viewport_dimensions = (800, 600),
               pixel_ratio = Some 105, priv_width = Some (8578285004515230 / 1125899906842624),
               priv_height = Some (6433713753386423 / 1125899906842624),
               position = Vector 0 0\<rparr>)"
    using set_dimensions_width
      [of "\<lparr>renderer = (), target_game_unit_width = 8, viewport_dimensions = (800, 600),
            pixel_ratio = Some 100, priv_width = Some 8, priv_height = Some 6,
            position = Vector 0 0\<rparr>" 800 600 "8578285004515231 / 1125899906842624"]
    by (simp add: rnd_examples)
  then show ?thesis by (simp add: set_width_def)
qed

subsection \<open>The example of the spec\<close>

text \<open>
  C6. The camera constructed for a viewport of 800 by 600 pixels and the target width 8
  has \<^verbatim>\<open>pixel_ratio\<close> 100, \<^verbatim>\<open>width\<close> 8 and \<^verbatim>\<open>height\<close> 6, at the position (0, 0); its
  \<^verbatim>\<open>translate_point_to_screen\<close> maps the point (4, 3) to the pixel (800, 0).
\<close>

theorem camera_800x600_target_8:
  "Camera_init rend 8 (800, 600) =
     Inr \<lparr>renderer = rend, target_game_unit_width = 8, viewport_dimensions = (800, 600),
          pixel_ratio = Some 100, priv_width = Some 8, priv_height = Some 6,
          position = Vector 0 0\<rparr>
   \<and> and_then (Camera_init rend 8 (800, 600)) (\<lambda>c. Inr (pixel_ratio c, width c, height c)) =
       Inr (Some 100, Some 8, Some 6)
   \<and> and_then (Camera_init rend 8 (800, 600)) (\<lambda>c. translate_point_to_screen c (Vector 4 3)) =
       Inr (Vector 800 0)"
proof -
  have "set_dimensions
      \<lparr>renderer = rend, target_game_unit_width = 8, viewport_dimensions = (800, 600),
       pixel_ratio = None, priv_width = None, priv_height = None,
       position = Vector 0 0\<rparr> (Some 8) None =
     (None, \<lparr>renderer = rend, target_game_unit_width = 8, viewport_dimensions = (800, 600),
          pixel_ratio = Some 100, priv_width = Some 8, priv_height = Some 6,
          position = Vector 0 0\<rparr>)"
    using set_dimensions_width
      [of "\<lparr>renderer = rend, target_game_unit_width = 8, viewport_dimensions = (800, 600),
            pixel_ratio = None, priv_width = None, priv_height = None,
            position = Vector 0 0\<rparr>" 800 600 8]
    by (simp add: rnd_small_ints)
  then show ?thesis
    by (simp add: Camera_init_def translate_point_to_screen_def left_def top'_def width_def
        height_def vector_mul_def)
qed

subsection \<open>Visibility\<close>



text \<open>
  C5. For every legacy camera and every sprite, \<^verbatim>\<open>in_frame\<close> returns \<^verbatim>\<open>True\<close> if and only
  if \<open>frame_left \<le> right\<close>, \<open>frame_right \<ge> left\<close>, \<open>frame_top \<ge> bottom\<close> and
  \<open>frame_bottom \<le> top\<close>. With a nonzero \<^verbatim>\<open>pixel_ratio\<close> the four frame edges exist and
  the method returns the truth value of that condition. A sprite whose right edge is
  exactly the frame's left edge, and that meets the other three comparisons, is in the
  frame.
\<close>

theorem in_frame_overlap_or_touch:
  "((in_frame self s = Inr True) =
      (\<exists>fl fr ft fb. frame_left self = Inr fl \<and> frame_right self = Inr fr
         \<and> frame_top self = Inr ft \<and> frame_bottom self = Inr fb
         \<and> fl \<le> sprite_right s \<and> fr \<ge> sprite_left s
         \<and> ft \<ge> sprite_bottom s \<and> fb \<le> sprite_top s))
   \<and> (old_pixel_ratio self \<noteq> 0 \<longrightarrow>
        (\<exists>fl fr ft fb. frame_left self = Inr fl \<and> frame_right self = Inr fr
           \<and> frame_top self = Inr ft \<and> frame_bottom self = Inr fb
           \<and> in_frame self s =
               Inr (fl \<le> sprite_right s \<and> fr \<ge> sprite_left s
                  \<and> ft \<ge> sprite_bottom s \<and> fb \<le> sprite_top s)))
   \<and> (frame_left self = Inr (sprite_right s) \<and> frame_right self = Inr fr
        \<and> frame_top self = Inr ft \<and> frame_bottom self = Inr fb
        \<and> fr \<ge> sprite_left s \<and> ft \<ge> sprite_bottom s \<and> fb \<le> sprite_top s \<longrightarrow>
        in_frame self s = Inr True)"
proof (intro conjI impI)
  show "(in_frame self s = Inr True) =
      (\<exists>fl fr ft fb. frame_left self = Inr fl \<and> frame_right self = Inr fr
         \<and> frame_top self = Inr ft \<and> frame_bottom self = Inr fb
         \<and> fl \<le> sprite_right s \<and> fr \<ge> sprite_left s
         \<and> ft \<ge> sprite_bottom s \<and> fb \<le> sprite_top s)"
    by (rule in_frame_True_iff)
next
  assume nz: "old_pixel_ratio self \<noteq> 0"
  show "\<exists>fl fr ft fb. frame_left self = Inr fl \<and> frame_right self = Inr fr
           \<and> frame_top self = Inr ft \<and> frame_bottom self = Inr fb
           \<and> in_frame self s =
               Inr (fl \<le> sprite_right s \<and> fr \<ge> sprite_left s
                  \<and> ft \<ge> sprite_bottom s \<and> fb \<le> sprite_top s)"
    using frame_left_eq [OF nz] frame_right_eq [OF nz] frame_top_eq [OF nz]
      frame_bottom_eq [OF nz]
    by (simp add: in_frame_edges)
next
  assume "frame_left self = Inr (sprite_right s) \<and> frame_right self = Inr fr
        \<and> frame_top self = Inr ft \<and> frame_bottom self = Inr fb
        \<and> fr \<ge> sprite_left s \<and> ft \<ge> sprite_bottom s \<and> fb \<le> sprite_top s"
  then show "in_frame self s = Inr True"
    by (simp add: in_frame_edges)
qed

text \<open>
  The default legacy camera, 800 by 600 pixels at 64 pixels per unit, has its frame
  edges at -25/4, 25/4, 75/16 and -75/16. A sprite whose right edge is -25/4 touches
  the frame and is in it; one whose right edge is -7 is not.
\<close>

theorem in_frame_overlap_or_touch_witness:
  "old_pixel_ratio
     \<lparr>old_position = Vector 0 0, viewport_origin = Vector 0 0, priv_viewport_width = 800,
      priv_viewport_height = 600, viewport_offset = Vector 400 300,
      old_pixel_ratio = 64\<rparr> \<noteq> 0
   \<and> frame_left
     \<lparr>old_position = Vector 0 0, viewport_origin = Vector 0 0, priv_viewport_width = 800,
      priv_viewport_height = 600, viewport_offset = Vector 400 300,
      old_pixel_ratio = 64\<rparr> = Inr (sprite_right (Sprite (- 10) (- (25 / 4)) 1 0))
   \<and> frame_right
     \<lparr>old_position = Vector 0 0, viewport_origin = Vector 0 0, priv_viewport_width = 800,
      priv_viewport_height = 600, viewport_offset = Vector 400 300,
      old_pixel_ratio = 64\<rparr> = Inr (25 / 4)
   \<and> frame_top
     \<lparr>old_position = Vector 0 0, viewport_origin = Vector 0 0, priv_viewport_width = 800,
      priv_viewport_height = 600, viewport_offset = Vector 400 300,
      old_pixel_ratio = 64\<rparr> = Inr (75 / 16)
   \<and> frame_bottom
     \<lparr>old_position = Vector 0 0, viewport_origin = Vector 0 0, priv_viewport_width = 800,
      priv_viewport_height = 600, viewport_offset = Vector 400 300,
      old_pixel_ratio = 64\<rparr> = Inr (- (75 / 16))
   \<and> in_frame
     \<lparr>old_position = Vector 0 0, viewport_origin = Vector 0 0, priv_viewport_width = 800,
      priv_viewport_height = 600, viewport_offset = Vector 400 300,
      old_pixel_ratio = 64\<rparr> (Sprite (- 10) (- (25 / 4)) 1 0) = Inr True
   \<and> in_frame
     \<lparr>old_position = Vector 0 0, viewport_origin = Vector 0 0, priv_viewport_width = 800,
      priv_viewport_height = 600, viewport_offset = Vector 400 300,
      old_pixel_ratio = 64\<rparr> (Sprite (- 10) (- 7) 1 0) = Inr False"
  using
    in_frame_overlap_or_touch
      [of "\<lparr>old_position = Vector 0 0, viewport_origin = Vector 0 0,
            priv_viewport_width = 800, priv_viewport_height = 600,
            viewport_offset = Vector 400 300, old_pixel_ratio = 64\<rparr>"
          "Sprite (- 10) (- (25 / 4)) 1 0" "25 / 4" "75 / 16" "- (75 / 16)"]
    in_frame_overlap_or_touch
      [of "\<lparr>old_position = Vector 0 0, viewport_origin = Vector 0 0,
            priv_viewport_width = 800, priv_viewport_height = 600,
            viewport_offset = Vector 400 300, old_pixel_ratio = 64\<rparr>"
          "Sprite (- 10) (- 7) 1 0" "25 / 4" "75 / 16" "- (75 / 16)"]
  by (simp add: frame_left_eq frame_right_eq frame_top_eq frame_bottom_eq in_frame_edges)

subsection \<open>The legacy coordinate mapping\<close>

text \<open>
  C2. On a legacy camera whose \<^verbatim>\<open>pixel_ratio\<close> is not zero, over exact arithmetic,
  \<^verbatim>\<open>translate_to_frame(translate_to_viewport(p))\<close> is \<open>p\<close> and
  \<^verbatim>\<open>translate_to_viewport(translate_to_frame(p))\<close> is \<open>p\<close>, for every point \<open>p\<close>; neither
  call raises.
\<close>

theorem old_camera_round_trip:
  assumes "old_pixel_ratio self \<noteq> 0"
  shows "and_then (translate_to_viewport self p) (translate_to_frame self) = Inr p
       \<and> and_then (translate_to_frame self p) (translate_to_viewport self) = Inr p"
  using assms
  by (simp add: translate_to_viewport_def translate_to_frame_def frame_left_eq frame_top_eq
      vector_truediv_def vector_mul_def truediv_def)

text \<open>
  On the default legacy camera the game point (1, 2) is the pixel (464, 172), and back.
\<close>

theorem old_camera_round_trip_witness:
  "old_pixel_ratio
     \<lparr>old_position = Vector 0 0, viewport_origin = Vector 0 0, priv_viewport_width = 800,
      priv_viewport_height = 600, viewport_offset = Vector 400 300,
      old_pixel_ratio = 64\<rparr> \<noteq> 0
   \<and> translate_to_viewport
     \<lparr>old_position = Vector 0 0, viewport_origin = Vector 0 0, priv_viewport_width = 800,
      priv_viewport_height = 600, viewport_offset = Vector 400 300,
      old_pixel_ratio = 64\<rparr> (Vector 1 2) = Inr (Vector 464 172)
   \<and> translate_to_frame
     \<lparr>old_position = Vector 0 0, viewport_origin = Vector 0 0, priv_viewport_width = 800,
      priv_viewport_height = 600, viewport_offset = Vector 400 300,
      old_pixel_ratio = 64\<rparr> (Vector 464 172) = Inr (Vector 1 2)
   \<and> and_then (translate_to_viewport
     \<lparr>old_position = Vector 0 0, viewport_origin = Vector 0 0, priv_viewport_width = 800,
      priv_viewport_height = 600, viewport_offset = Vector 400 300,
      old_pixel_ratio = 64\<rparr> (Vector 1 2))
       (translate_to_frame
     \<lparr>old_position = Vector 0 0, viewport_origin = Vector 0 0, priv_viewport_width = 800,
      priv_viewport_height = 600, viewport_offset = Vector 400 300,
      old_pixel_ratio = 64\<rparr>) = Inr (Vector 1 2)
   \<and> and_then (translate_to_frame
     \<lparr>old_position = Vector 0 0, viewport_origin = Vector 0 0, priv_viewport_width = 800,
      priv_viewport_height = 600, viewport_offset = Vector 400 300,
      old_pixel_ratio = 64\<rparr> (Vector 464 172))
       (translate_to_viewport
     \<lparr>old_position = Vector 0 0, viewport_origin = Vector 0 0, priv_viewport_width = 800,
      priv_viewport_height = 600, viewport_offset = Vector 400 300,
      old_pixel_ratio = 64\<rparr>) = Inr (Vector 464 172)"
  using
    old_camera_round_trip
      [of "\<lparr>old_position = Vector 0 0, viewport_origin = Vector 0 0,
            priv_viewport_width = 800, priv_viewport_height = 600,
            viewport_offset = Vector 400 300, old_pixel_ratio = 64\<rparr>" "Vector 1 2"]
    old_camera_round_trip
      [of "\<lparr>old_position = Vector 0 0, viewport_origin = Vector 0 0,
            priv_viewport_width = 800, priv_viewport_height = 600,
            viewport_offset = Vector 400 300, old_pixel_ratio = 64\<rparr>" "Vector 464 172"]
  by (simp add: translate_to_viewport_def translate_to_frame_def frame_left_eq frame_top_eq
      vector_truediv_def vector_mul_def truediv_def)

subsection \<open>The legacy offset cache\<close>

text \<open>
  C7. The legacy camera's \<^verbatim>\<open>viewport_offset\<close> is (\<^verbatim>\<open>viewport_width\<close> / 2,
  \<^verbatim>\<open>viewport_height\<close> / 2) after construction and after every run of calls of the
  \<^verbatim>\<open>viewport_width\<close> and \<^verbatim>\<open>viewport_height\<close> setters on the constructed camera; each
  of the two setters leaves the cache in step with the viewport, whatever the camera
  it is called on.
\<close>

theorem viewport_offset_invariant:
  "(OldCamera_init vp k = Inr c \<longrightarrow> offset_synced c \<and> offset_synced (foldl apply_setter c calls))
   \<and> offset_synced (set_viewport_width self v)
   \<and> offset_synced (set_viewport_height self v)"
  using OldCamera_init_synced [of vp k c] foldl_apply_setter_synced [of c calls]
    set_viewport_width_synced [of self v] set_viewport_height_synced [of self v]
  by blast

text \<open>
  The default camera, then the width set to 640 and the height to 480: the offset is
  (400, 300) at first and (320, 240) at the end.
\<close>

theorem viewport_offset_invariant_witness:
  "OldCamera_init [0, 0, 800, 600] 64 =
     Inr \<lparr>old_position = Vector 0 0, viewport_origin = Vector 0 0, priv_viewport_width = 800,
          priv_viewport_height = 600, viewport_offset = Vector 400 300,
          old_pixel_ratio = 64\<rparr>
   \<and> offset_synced
       \<lparr>old_position = Vector 0 0, viewport_origin = Vector 0 0, priv_viewport_width = 800,
        priv_viewport_height = 600, viewport_offset = Vector 400 300,
        old_pixel_ratio = 64\<rparr>
   \<and> offset_synced (foldl apply_setter
       \<lparr>old_position = Vector 0 0, viewport_origin = Vector 0 0, priv_viewport_width = 800,
        priv_viewport_height = 600, viewport_offset = Vector 400 300,
        old_pixel_ratio = 64\<rparr> [SetViewportWidth 640, SetViewportHeight 480])
   \<and> viewport_offset (foldl apply_setter
       \<lparr>old_position = Vector 0 0, viewport_origin = Vector 0 0, priv_viewport_width = 800,
        priv_viewport_height = 600, viewport_offset = Vector 400 300,
        old_pixel_ratio = 64\<rparr> [SetViewportWidth 640, SetViewportHeight 480]) = Vector 320 240"
proof -
  have init: "OldCamera_init [0, 0, 800, 600] 64 =
     Inr \<lparr>old_position = Vector 0 0, viewport_origin = Vector 0 0, priv_viewport_width = 800,
          priv_viewport_height = 600, viewport_offset = Vector 400 300,
          old_pixel_ratio = 64\<rparr>"
    by (simp add: OldCamera_init_def getitem_def)
  have off: "viewport_offset (foldl apply_setter
       \<lparr>old_position = Vector 0 0, viewport_origin = Vector 0 0, priv_viewport_width = 800,
        priv_viewport_height = 600, viewport_offset = Vector 400 300,
        old_pixel_ratio = 64\<rparr> [SetViewportWidth 640, SetViewportHeight 480]) = Vector 320 240"
    by (simp add: set_viewport_width_def set_viewport_height_def viewport_width_def
        viewport_height_def)
  show ?thesis
    using init off
      viewport_offset_invariant
        [of "[0, 0, 800, 600]" 64
          "\<lparr>old_position = Vector 0 0, viewport_origin = Vector 0 0,
            priv_viewport_width = 800, priv_viewport_height = 600,
            viewport_offset = Vector 400 300, old_pixel_ratio = 64\<rparr>"
          "[SetViewportWidth 640, SetViewportHeight 480]"]
    by simp
qed

text \<open>
  C8. On a legacy camera whose offset cache is in step with its viewport, as it is
  after construction and after every setter call, setting \<^verbatim>\<open>viewport_width\<close> changes
  \<^verbatim>\<open>_viewport_width\<close> and the x component of \<^verbatim>\<open>viewport_offset\<close> and nothing else, and
  setting \<^verbatim>\<open>viewport_height\<close> changes \<^verbatim>\<open>_viewport_height\<close> and the y component of
  \<^verbatim>\<open>viewport_offset\<close> and nothing else.
\<close>

theorem viewport_setters_frame:
  assumes "offset_synced self"
  shows "set_viewport_width self v =
           self\<lparr>priv_viewport_width := v,
                viewport_offset := Vector (real_of_int v / 2) (vec_y (viewport_offset self))\<rparr>
       \<and> set_viewport_height self v =
           self\<lparr>priv_viewport_height := v,
                viewport_offset := Vector (vec_x (viewport_offset self)) (real_of_int v / 2)\<rparr>"
  using assms
  by (simp add: offset_synced_def set_viewport_width_def set_viewport_height_def
      viewport_width_def viewport_height_def)

text \<open>
  The spec's example: the width of the default camera set from 800 to 640 moves the
  offset from (400, 300) to (320, 300), every other attribute as before.
\<close>

theorem viewport_setters_frame_witness:
  "offset_synced
     \<lparr>old_position = Vector 0 0, viewport_origin = Vector 0 0, priv_viewport_width = 800,
      priv_viewport_height = 600, viewport_offset = Vector 400 300,
      old_pixel_ratio = 64\<rparr>
   \<and> set_viewport_width
       \<lparr>old_position = Vector 0 0, viewport_origin = Vector 0 0, priv_viewport_width = 800,
        priv_viewport_height = 600, viewport_offset = Vector 400 300,
        old_pixel_ratio = 64\<rparr> 640 =
       \<lparr>old_position = Vector 0 0, viewport_origin = Vector 0 0, priv_viewport_width = 640,
        priv_viewport_height = 600, viewport_offset = Vector 320 300,
        old_pixel_ratio = 64\<rparr>
   \<and> set_viewport_height
       \<lparr>old_position = Vector 0 0, viewport_origin = Vector 0 0, priv_viewport_width = 800,
        priv_viewport_height = 600, viewport_offset = Vector 400 300,
        old_pixel_ratio = 64\<rparr> 480 =
       \<lparr>old_position = Vector 0 0, viewport_origin = Vector 0 0, priv_viewport_width = 800,
        priv_viewport_height = 480, viewport_offset = Vector 400 240,
        old_pixel_ratio = 64\<rparr>"
proof -
  have synced: "offset_synced
     \<lparr>old_position = Vector 0 0, viewport_origin = Vector 0 0, priv_viewport_width = 800,
      priv_viewport_height = 600, viewport_offset = Vector 400 300,
      old_pixel_ratio = 64\<rparr>"
    by (simp add: offset_synced_def viewport_width_def viewport_height_def)
  show ?thesis
    using synced viewport_setters_frame [OF synced, of 640]
      viewport_setters_frame [OF synced, of 480]
    by simp
qed

end
